theory Spec2Isabelle
  imports Complex_Main
begin

section \<open>Data model (components/Node/node.ts)\<close>

text \<open>
  The editor is TypeScript. A \<^verbatim>\<open>number\<close> is modelled as a real (rounding of IEEE doubles is
  not modelled), a \<^verbatim>\<open>string\<close> as a character list, an optional field \<^verbatim>\<open>f?: T\<close> as an
  option, an array as a list. Field names carry a prefix where the bare name would
  collide with a variable or a library constant (\<^verbatim>\<open>x\<close>, \<^verbatim>\<open>id\<close>, \<^verbatim>\<open>from\<close>, \<^verbatim>\<open>end\<close>).
\<close>

record Point =
  pt_x :: real
  pt_y :: real

record PortDef =
  port_name :: string
  port_type :: string

text \<open>
  \<^verbatim>\<open>NodeTypeDef\<close>: the presentation fields (title, category, color, showOutputs) are
  never read by the handlers below and are left out.
\<close>

record NodeTypeDef =
  type_id :: string
  inputs :: "PortDef list"
  outputs :: "PortDef list"

text \<open>
  \<^verbatim>\<open>NodeData\<close>; the per-port values \<^verbatim>\<open>data\<close> are opaque to the engine (type \<open>'d\<close>).
\<close>

record 'd NodeData =
  node_id :: string
  node_type :: string
  node_x :: real
  node_y :: real
  node_width :: "real option"
  node_height :: "real option"
  node_data :: "'d option"
  node_selected :: "bool option"

record Endpoint =
  nodeId :: string
  port :: string
  portDef :: "PortDef option"

text \<open>
  A \<^verbatim>\<open>Connection\<close> is a JavaScript object. Two handlers compare connections with
  \<^verbatim>\<open>!==\<close>, which on objects is identity and not equality of fields, so every connection
  object carries its identity \<open>oid\<close> (its address). The object built by a literal
  \<^verbatim>\<open>{from: .., to: ..}\<close> gets the next unused address.
\<close>

record Connection =
  oid :: nat
  conn_from :: Endpoint
  conn_to :: Endpoint

text \<open>The spec's equality of connections: all four identifying fields match.\<close>

definition same_fields :: "Connection \<Rightarrow> Connection \<Rightarrow> bool" where
  "same_fields c d =
     (nodeId (conn_from c) = nodeId (conn_from d) \<and> port (conn_from c) = port (conn_from d) \<and>
      nodeId (conn_to c) = nodeId (conn_to d) \<and> port (conn_to c) = port (conn_to d))"

record 'd AppState =
  nodes :: "'d NodeData list"
  connections :: "Connection list"

text \<open>JavaScript truthiness of an optional boolean and of an optional string.\<close>

fun truthy_bool :: "bool option \<Rightarrow> bool" where
  "truthy_bool None = False"
| "truthy_bool (Some b) = b"

fun truthy_str :: "string option \<Rightarrow> bool" where
  "truthy_str None = False"
| "truthy_str (Some s) = (s \<noteq> [])"

text \<open>The modifier keys every DOM input event carries.\<close>

record Modifiers =
  ctrlKey :: bool
  metaKey :: bool
  shiftKey :: bool

section \<open>The history store (hooks/useHistory.ts)\<close>

record 'a History =
  past :: "'a list"
  present :: 'a
  future :: "'a list"

definition canUndo :: "'a History \<Rightarrow> bool" where
  "canUndo history = (length (past history) > 0)"

definition canRedo :: "'a History \<Rightarrow> bool" where
  "canRedo history = (length (future history) > 0)"

text \<open>
  Each operation is the updater handed to \<^verbatim>\<open>setHistory\<close>: a function of the current
  history \<open>cur\<close>.
\<close>

definition undo :: "'a History \<Rightarrow> 'a History" where
  "undo cur =
     (if length (past cur) = 0 then cur
      else
        let previous = past cur ! (length (past cur) - 1);
            newPast = take (length (past cur) - 1) (past cur)
        in \<lparr>past = newPast, present = previous, future = present cur # future cur\<rparr>)"

definition redo :: "'a History \<Rightarrow> 'a History" where
  "redo cur =
     (if length (future cur) = 0 then cur
      else
        let next = future cur ! 0;
            newFuture = drop 1 (future cur)
        in \<lparr>past = past cur @ [present cur], present = next, future = newFuture\<rparr>)"

text \<open>
  \<^verbatim>\<open>set(newPresent, {replace})\<close>; \<^verbatim>\<open>newPast.shift()\<close> removes the first element.
  \<open>maxHistory\<close> is the hook's second parameter.
\<close>

definition set_hist :: "nat \<Rightarrow> 'a History \<Rightarrow> 'a \<Rightarrow> bool \<Rightarrow> 'a History" where
  "set_hist maxHistory cur newPresent replace =
     (if replace then cur\<lparr>present := newPresent\<rparr>
      else
        let newPast = past cur @ [present cur];
            newPast = (if length newPast > maxHistory then drop 1 newPast else newPast)
        in \<lparr>past = newPast, present = newPresent, future = []\<rparr>)"

text \<open>The default of \<^verbatim>\<open>maxHistory\<close>, which is what \<^verbatim>\<open>NodeSystem\<close> uses.\<close>

definition maxHistory_default :: nat where
  "maxHistory_default = 50"

text \<open>A run of \<^verbatim>\<open>set\<close> calls with the same \<^verbatim>\<open>replace\<close> option, in order.\<close>

definition set_all :: "nat \<Rightarrow> bool \<Rightarrow> 'a History \<Rightarrow> 'a list \<Rightarrow> 'a History" where
  "set_all maxHistory replace cur xs =
     foldl (\<lambda>h x. set_hist maxHistory h x replace) cur xs"

section \<open>The coordinator (components/NodeSystem/NodeSystem.tsx)\<close>

text \<open>
  \<^verbatim>\<open>NodeSystem\<close> keeps its state in \<^verbatim>\<open>useHistory<AppState>(..)\<close> with the default bound.
  A handler is a closure made by a render: it reads the \<^verbatim>\<open>nodes\<close> and \<^verbatim>\<open>connections\<close>
  which that render took from \<^verbatim>\<open>history.present\<close> (the argument \<open>rendered\<close>), builds the
  new snapshot from them and hands it to \<^verbatim>\<open>set\<close>, whose updater runs on the history
  current at the time of the call (the argument \<open>cur\<close>). No render happens while an event
  handler runs, so every call made by one event sees the same \<open>rendered\<close>.
\<close>

datatype ids = Single string | Several "string list"

text \<open>\<^verbatim>\<open>isDragging\<close> is \<^verbatim>\<open>isDraggingRef.current\<close>.\<close>

definition handleNodeMove ::
  "'d AppState \<Rightarrow> bool \<Rightarrow> 'd AppState History \<Rightarrow> string \<Rightarrow> real \<Rightarrow> real \<Rightarrow> 'd AppState History" where
  "handleNodeMove rendered isDragging cur i x y =
     set_hist maxHistory_default cur
       \<lparr>nodes = map (\<lambda>n. if node_id n = i then n\<lparr>node_x := x, node_y := y\<rparr> else n) (nodes rendered),
        connections = connections rendered\<rparr>
       isDragging"

text \<open>
  \<^verbatim>\<open>handleNodeSelect(id, evt?)\<close>: \<open>None\<close> is \<^verbatim>\<open>null\<close>; of the event only the modifier keys
  are read (\<^verbatim>\<open>evt?.ctrlKey || evt?.metaKey\<close>).
\<close>

definition handleNodeSelect ::
  "'d AppState \<Rightarrow> 'd AppState History \<Rightarrow> ids option \<Rightarrow> Modifiers option \<Rightarrow> 'd AppState History" where
  "handleNodeSelect rendered cur target evt =
     (case target of
        None \<Rightarrow>
          set_hist maxHistory_default cur
            \<lparr>nodes = map (\<lambda>n. n\<lparr>node_selected := Some False\<rparr>) (nodes rendered),
             connections = connections rendered\<rparr>
            True
      | Some (Several is) \<Rightarrow>
          set_hist maxHistory_default cur
            \<lparr>nodes = map (\<lambda>n. n\<lparr>node_selected := Some (node_id n \<in> set is)\<rparr>) (nodes rendered),
             connections = connections rendered\<rparr>
            True
      | Some (Single i) \<Rightarrow>
          set_hist maxHistory_default cur
            \<lparr>nodes =
               (let isCtrlPressed = (case evt of None \<Rightarrow> False | Some e \<Rightarrow> ctrlKey e \<or> metaKey e)
                in if isCtrlPressed
                   then map (\<lambda>n. if node_id n = i
                                  then n\<lparr>node_selected := Some (\<not> truthy_bool (node_selected n))\<rparr>
                                  else n) (nodes rendered)
                   else map (\<lambda>n. n\<lparr>node_selected := Some (node_id n = i)\<rparr>) (nodes rendered)),
             connections = connections rendered\<rparr>
            True)"

definition handleCompleteConnection ::
  "'d AppState \<Rightarrow> 'd AppState History \<Rightarrow> Connection \<Rightarrow> 'd AppState History" where
  "handleCompleteConnection rendered cur connection =
     set_hist maxHistory_default cur
       \<lparr>nodes = nodes rendered, connections = connections rendered @ [connection]\<rparr>
       False"

definition handleNodeDelete ::
  "'d AppState \<Rightarrow> 'd AppState History \<Rightarrow> ids \<Rightarrow> 'd AppState History" where
  "handleNodeDelete rendered cur target =
     (let idsToDelete = (case target of Several is \<Rightarrow> is | Single i \<Rightarrow> [i])
      in set_hist maxHistory_default cur
           \<lparr>nodes = filter (\<lambda>n. node_id n \<notin> set idsToDelete) (nodes rendered),
            connections =
              filter (\<lambda>c. nodeId (conn_from c) \<notin> set idsToDelete \<and> nodeId (conn_to c) \<notin> set idsToDelete)
                (connections rendered)\<rparr>
           False)"

text \<open>
  \<^verbatim>\<open>handleSpliceNode\<close> reads \<^verbatim>\<open>stateRef.current\<close>, the snapshot of the latest render.
  \<open>alloc\<close> is the next unused object address: the two connection literals get
  \<open>alloc\<close> and \<open>alloc + 1\<close>. The filter \<^verbatim>\<open>c !== connectionToRemove\<close> compares identities.
\<close>

definition handleSpliceNode ::
  "'d AppState \<Rightarrow> 'd AppState History \<Rightarrow> nat \<Rightarrow> string \<Rightarrow> Connection \<Rightarrow> string \<Rightarrow> string \<Rightarrow>
     real option \<Rightarrow> real option \<Rightarrow> 'd AppState History" where
  "handleSpliceNode stateRef cur alloc nid connectionToRemove inputPort outputPort newX newY =
     (let currentNodes = nodes stateRef;
          currentConnections = connections stateRef;
          connectionIn =
            \<lparr>oid = alloc, conn_from = conn_from connectionToRemove,
             conn_to = \<lparr>nodeId = nid, port = inputPort, portDef = None\<rparr>\<rparr>;
          connectionOut =
            \<lparr>oid = alloc + 1, conn_from = \<lparr>nodeId = nid, port = outputPort, portDef = None\<rparr>,
             conn_to = conn_to connectionToRemove\<rparr>;
          updatedNodes =
            (case (newX, newY) of
               (Some nx, Some ny) \<Rightarrow>
                 map (\<lambda>n. if node_id n = nid then n\<lparr>node_x := nx, node_y := ny\<rparr> else n) currentNodes
             | _ \<Rightarrow> currentNodes)
      in set_hist maxHistory_default cur
           \<lparr>nodes = updatedNodes,
            connections =
              filter (\<lambda>c. oid c \<noteq> oid connectionToRemove) currentConnections
                @ [connectionIn, connectionOut]\<rparr>
           False)"

text \<open>
  Invariant I2 of the spec, as a check on a snapshot: both node ids of every connection
  are ids of nodes of the same snapshot.
\<close>

definition invariant_I2 :: "'d AppState \<Rightarrow> bool" where
  "invariant_I2 s =
     list_all (\<lambda>c. nodeId (conn_from c) \<in> set (map node_id (nodes s)) \<and>
                    nodeId (conn_to c) \<in> set (map node_id (nodes s)))
       (connections s)"

text \<open>The ids a call of \<^verbatim>\<open>handleNodeDelete\<close> deletes (its \<^verbatim>\<open>idsToDelete\<close>), as a set.\<close>

definition deleted_ids :: "ids \<Rightarrow> string set" where
  "deleted_ids target = (case target of Several is \<Rightarrow> set is | Single i \<Rightarrow> {i})"

section \<open>Pan and zoom (components/NodePlatform/hooks/usePanning.ts)\<close>

text \<open>
  The hook's two state cells. \<^verbatim>\<open>handleWheel\<close> updates them with the functional setters,
  each reading the previous value of its own cell.
\<close>

record PanningState =
  offset :: Point
  scale :: real

record WheelEvent = Modifiers +
  deltaY :: real

definition usePanning_initial :: PanningState where
  "usePanning_initial = \<lparr>offset = \<lparr>pt_x = 0, pt_y = 0\<rparr>, scale = 1\<rparr>"

definition handleWheel :: "PanningState \<Rightarrow> WheelEvent \<Rightarrow> PanningState" where
  "handleWheel prev e =
     (let isCtrlOrCmd = (ctrlKey e \<or> metaKey e)
      in if isCtrlOrCmd then
           let delta = - deltaY e * 0.001
           in \<lparr>offset = \<lparr>pt_x = pt_x (offset prev) - deltaY e, pt_y = pt_y (offset prev)\<rparr>,
               scale = min (max 0.2 (scale prev + delta)) 2\<rparr>
         else
           \<lparr>offset = \<lparr>pt_x = pt_x (offset prev), pt_y = pt_y (offset prev) - deltaY e\<rparr>,
            scale = scale prev\<rparr>)"

section \<open>Dragging a connection (components/NodePlatform/hooks/useConnectionDrag.ts)\<close>

datatype direction = Input | Output

record NewConnection =
  nc_from :: "Endpoint option"
  nc_to :: "Endpoint option"

record ConnectionPreview =
  pv_start :: Point
  pv_end :: Point

text \<open>
  What the hook reads: the props of \<^verbatim>\<open>NodePlatform\<close> and its state. \<open>cfg_platformRect\<close> is
  the left/top corner of \<^verbatim>\<open>platformRef.current.getBoundingClientRect()\<close>, \<open>None\<close> while
  the ref is \<^verbatim>\<open>null\<close>. The two records of node types and of port positions are maps from
  their keys.
\<close>

record 'd UseConnectionDragConfig =
  cfg_nodes :: "'d NodeData list"
  cfg_edges :: "Connection list"
  cfg_nodeTypes :: "string \<Rightarrow> NodeTypeDef option"
  cfg_portPositions :: "string \<Rightarrow> Point option"
  cfg_offset :: Point
  cfg_scale :: real
  cfg_platformRect :: "Point option"

text \<open>
  What the handlers write: the hook's cells \<^verbatim>\<open>newConnection\<close> and \<^verbatim>\<open>connectionPreview\<close>,
  and the cell \<^verbatim>\<open>warningMessage\<close> of \<^verbatim>\<open>NodePlatform\<close>, written through
  \<^verbatim>\<open>setWarningMessage\<close>. (The timer that clears the warning after 3 s is not modelled.)
  A handler also calls back into the coordinator; the calls it makes are returned in
  order.
\<close>

record GestureState =
  newConnection :: "NewConnection option"
  connectionPreview :: "ConnectionPreview option"
  warningMessage :: "string option"

datatype callback =
    OnCompleteConnection Connection
  | OnDeleteConnection Connection
  | OnStartConnection string PortDef

definition gesture_initial :: GestureState where
  "gesture_initial = \<lparr>newConnection = None, connectionPreview = None, warningMessage = None\<rparr>"

definition handlePortPointerDown ::
  "'d UseConnectionDragConfig \<Rightarrow> GestureState \<Rightarrow> string \<Rightarrow> PortDef \<Rightarrow> direction \<Rightarrow> real \<Rightarrow> real \<Rightarrow>
     GestureState \<times> callback list" where
  "handlePortPointerDown cfg st nid p dir clientX clientY =
     (let st = st\<lparr>warningMessage := None\<rparr>;
          portKey = nid @ ''-'' @ port_name p
      in case (cfg_portPositions cfg portKey, cfg_platformRect cfg) of
           (Some pos, Some platformRect) \<Rightarrow>
             (case (if dir = Input
                    then find (\<lambda>e. nodeId (conn_to e) = nid \<and> port (conn_to e) = port_name p) (cfg_edges cfg)
                    else None) of
                Some existingConnection \<Rightarrow> (st, [OnDeleteConnection existingConnection])
              | None \<Rightarrow>
                  let endX = (clientX - pt_x platformRect - pt_x (cfg_offset cfg)) / cfg_scale cfg;
                      endY = (clientY - pt_y platformRect - pt_y (cfg_offset cfg)) / cfg_scale cfg;
                      grabbed = \<lparr>nodeId = nid, port = port_name p, portDef = Some p\<rparr>
                  in (st\<lparr>newConnection :=
                            Some (if dir = Output then \<lparr>nc_from = Some grabbed, nc_to = None\<rparr>
                                  else \<lparr>nc_from = None, nc_to = Some grabbed\<rparr>),
                         connectionPreview := Some \<lparr>pv_start = pos, pv_end = \<lparr>pt_x = endX, pt_y = endY\<rparr>\<rparr>\<rparr>,
                      [OnStartConnection nid p]))
         | _ \<Rightarrow> (st, []))"

text \<open>
  Lines 120 to 135 of \<^verbatim>\<open>handlePortPointerUp\<close>: the two endpoints, from the endpoint the
  drag started at and the port the pointer was released on.
\<close>

definition resolveEndpoints ::
  "NewConnection \<Rightarrow> string \<Rightarrow> PortDef \<Rightarrow> direction \<Rightarrow>
     string option \<times> string option \<times> string option \<times> string option" where
  "resolveEndpoints nc nid p dir =
     (if dir = Input
      then (map_option nodeId (nc_from nc), map_option port (nc_from nc), Some nid, Some (port_name p))
      else (Some nid, Some (port_name p), map_option nodeId (nc_to nc), map_option port (nc_to nc)))"

text \<open>
  Lines 143 to 149: the node type of a node id, and the declared output or input port
  of that name. A step that finds nothing gives \<^verbatim>\<open>undefined\<close> (here \<open>None\<close>).
\<close>

definition nodeTypeOf :: "'d UseConnectionDragConfig \<Rightarrow> string \<Rightarrow> NodeTypeDef option" where
  "nodeTypeOf cfg i =
     (case find (\<lambda>n. node_id n = i) (cfg_nodes cfg) of
        Some node \<Rightarrow> cfg_nodeTypes cfg (node_type node)
      | None \<Rightarrow> None)"

definition fromPortDefOf :: "'d UseConnectionDragConfig \<Rightarrow> string \<Rightarrow> string \<Rightarrow> PortDef option" where
  "fromPortDefOf cfg fromNodeId fromPortName =
     (case nodeTypeOf cfg fromNodeId of
        Some fromNodeType \<Rightarrow> find (\<lambda>q. port_name q = fromPortName) (outputs fromNodeType)
      | None \<Rightarrow> None)"

definition toPortDefOf :: "'d UseConnectionDragConfig \<Rightarrow> string \<Rightarrow> string \<Rightarrow> PortDef option" where
  "toPortDefOf cfg toNodeId toPortName =
     (case nodeTypeOf cfg toNodeId of
        Some toNodeType \<Rightarrow> find (\<lambda>q. port_name q = toPortName) (inputs toNodeType)
      | None \<Rightarrow> None)"

definition isDuplicate :: "Connection list \<Rightarrow> string \<Rightarrow> string \<Rightarrow> string \<Rightarrow> string \<Rightarrow> bool" where
  "isDuplicate edges fromNodeId fromPortName toNodeId toPortName =
     list_ex (\<lambda>e. nodeId (conn_from e) = fromNodeId \<and> port (conn_from e) = fromPortName \<and>
                   nodeId (conn_to e) = toNodeId \<and> port (conn_to e) = toPortName) edges"

definition inputAlreadyConnected :: "Connection list \<Rightarrow> string \<Rightarrow> string \<Rightarrow> bool" where
  "inputAlreadyConnected edges toNodeId toPortName =
     list_ex (\<lambda>e. nodeId (conn_to e) = toNodeId \<and> port (conn_to e) = toPortName) edges"

text \<open>
  Lines 151 to 184: the validation, for endpoints that are all present. The result is
  the warning to set, or the connection to hand to \<^verbatim>\<open>onCompleteConnection\<close>; \<open>alloc\<close> is
  the address the new connection object gets.
\<close>

definition validateConnection ::
  "'d UseConnectionDragConfig \<Rightarrow> nat \<Rightarrow> string \<Rightarrow> string \<Rightarrow> string \<Rightarrow> string \<Rightarrow> string + Connection" where
  \<open>validateConnection cfg alloc fromNodeId fromPortName toNodeId toPortName =
     (if fromNodeId = toNodeId then Inl ''Cannot connect a node to itself''
      else
        case (nodeTypeOf cfg fromNodeId, nodeTypeOf cfg toNodeId) of
          (Some fromNodeType, Some toNodeType) \<Rightarrow>
            (case (fromPortDefOf cfg fromNodeId fromPortName, toPortDefOf cfg toNodeId toPortName) of
               (Some fromPortDef, Some toPortDef) \<Rightarrow>
                 if port_type fromPortDef \<noteq> port_type toPortDef
                 then Inl (''Cannot connect ports of different types: '' @ port_type fromPortDef
                             @ '' and '' @ port_type toPortDef)
                 else if isDuplicate (cfg_edges cfg) fromNodeId fromPortName toNodeId toPortName
                 then Inl ''This connection already exists''
                 else if inputAlreadyConnected (cfg_edges cfg) toNodeId toPortName
                 then Inl (''Input port "'' @ toPortName @ ''" is already connected'')
                 else Inr \<lparr>oid = alloc,
                           conn_from = \<lparr>nodeId = fromNodeId, port = fromPortName, portDef = None\<rparr>,
                           conn_to = \<lparr>nodeId = toNodeId, port = toPortName, portDef = None\<rparr>\<rparr>
             | _ \<Rightarrow> Inl ''Port not found in node definition'')
        | _ \<Rightarrow> Inl ''Invalid node types'')\<close>

definition handlePortPointerUp ::
  "'d UseConnectionDragConfig \<Rightarrow> nat \<Rightarrow> GestureState \<Rightarrow> string \<Rightarrow> PortDef \<Rightarrow> direction \<Rightarrow>
     GestureState \<times> callback list" where
  "handlePortPointerUp cfg alloc st nid p dir =
     (case newConnection st of
        None \<Rightarrow> (st, [])
      | Some nc \<Rightarrow>
          (case resolveEndpoints nc nid p dir of
             (fromNodeId, fromPortName, toNodeId, toPortName) \<Rightarrow>
               if \<not> truthy_str fromNodeId \<or> \<not> truthy_str fromPortName \<or>
                  \<not> truthy_str toNodeId \<or> \<not> truthy_str toPortName
               then (st\<lparr>newConnection := None, connectionPreview := None\<rparr>, [])
               else
                 (case (fromNodeId, fromPortName, toNodeId, toPortName) of
                    (Some f, Some fp, Some t, Some tp) \<Rightarrow>
                      (case validateConnection cfg alloc f fp t tp of
                         Inl message \<Rightarrow>
                           (st\<lparr>warningMessage := Some message,
                               newConnection := None, connectionPreview := None\<rparr>, [])
                       | Inr connection \<Rightarrow>
                           (st\<lparr>newConnection := None, connectionPreview := None\<rparr>,
                            [OnCompleteConnection connection]))
                  | _ \<Rightarrow> (st\<lparr>newConnection := None, connectionPreview := None\<rparr>, []))))"

definition handlePointerMove ::
  "'d UseConnectionDragConfig \<Rightarrow> GestureState \<Rightarrow> real \<Rightarrow> real \<Rightarrow> GestureState" where
  "handlePointerMove cfg st clientX clientY =
     (case (connectionPreview st, newConnection st, cfg_platformRect cfg) of
        (Some prev, Some nc, Some platformRect) \<Rightarrow>
          st\<lparr>connectionPreview :=
               Some (prev\<lparr>pv_end :=
                      \<lparr>pt_x = (clientX - pt_x platformRect - pt_x (cfg_offset cfg)) / cfg_scale cfg,
                       pt_y = (clientY - pt_y platformRect - pt_y (cfg_offset cfg)) / cfg_scale cfg\<rparr>\<rparr>)\<rparr>
      | _ \<Rightarrow> st)"

definition handlePointerUp :: "GestureState \<Rightarrow> GestureState" where
  "handlePointerUp st = st\<lparr>newConnection := None, connectionPreview := None\<rparr>"

text \<open>
  The states the gesture cells can be in: from the initial render, any sequence of the
  four handlers, with any arguments and under any props. (Other writers of
  \<^verbatim>\<open>warningMessage\<close> only clear it; they are the last rule.)
\<close>

inductive reachable :: "GestureState \<Rightarrow> bool" where
  initial: "reachable gesture_initial"
| portDown: "reachable st \<Longrightarrow>
     reachable (fst (handlePortPointerDown (cfg :: unit UseConnectionDragConfig) st nid p dir clientX clientY))"
| portUp: "reachable st \<Longrightarrow>
     reachable (fst (handlePortPointerUp (cfg :: unit UseConnectionDragConfig) alloc st nid p dir))"
| move: "reachable st \<Longrightarrow>
     reachable (handlePointerMove (cfg :: unit UseConnectionDragConfig) st clientX clientY)"
| up: "reachable st \<Longrightarrow> reachable (handlePointerUp st)"
| warningCleared: "reachable st \<Longrightarrow> reachable (st\<lparr>warningMessage := None\<rparr>)"

text \<open>
  The spec's steps 3 to 8 of the port pointer-up (section 4.4), written from its words:
  the checks in the spec's order, each with the spec's message, and the message of the
  first check that fails.
\<close>

fun first_failure :: "(bool \<times> string) list \<Rightarrow> string option" where
  "first_failure [] = None"
| "first_failure ((failed, message) # rest) = (if failed then Some message else first_failure rest)"

definition spec_type_name :: "PortDef option \<Rightarrow> string" where
  "spec_type_name d = (case d of Some q \<Rightarrow> port_type q | None \<Rightarrow> ''undefined'')"

definition spec_rejection ::
  "'d UseConnectionDragConfig \<Rightarrow> string \<Rightarrow> string \<Rightarrow> string \<Rightarrow> string \<Rightarrow> string option" where
  \<open>spec_rejection cfg fromNodeId fromPortName toNodeId toPortName =
     first_failure
       [(fromNodeId = toNodeId,
           ''Cannot connect a node to itself''),
        (nodeTypeOf cfg fromNodeId = None \<or> nodeTypeOf cfg toNodeId = None,
           ''Invalid node types''),
        (fromPortDefOf cfg fromNodeId fromPortName = None \<or> toPortDefOf cfg toNodeId toPortName = None,
           ''Port not found in node definition''),
        (spec_type_name (fromPortDefOf cfg fromNodeId fromPortName)
            \<noteq> spec_type_name (toPortDefOf cfg toNodeId toPortName),
           ''Cannot connect ports of different types: ''
             @ spec_type_name (fromPortDefOf cfg fromNodeId fromPortName) @ '' and ''
             @ spec_type_name (toPortDefOf cfg toNodeId toPortName)),
        (list_ex (\<lambda>e. same_fields e
                    \<lparr>oid = 0, conn_from = \<lparr>nodeId = fromNodeId, port = fromPortName, portDef = None\<rparr>,
                     conn_to = \<lparr>nodeId = toNodeId, port = toPortName, portDef = None\<rparr>\<rparr>) (cfg_edges cfg),
           ''This connection already exists''),
        (list_ex (\<lambda>e. nodeId (conn_to e) = toNodeId \<and> port (conn_to e) = toPortName) (cfg_edges cfg),
           ''Input port "'' @ toPortName @ ''" is already connected'')]\<close>

text \<open>
  The callbacks as \<^verbatim>\<open>NodeSystem\<close> passes them through \<^verbatim>\<open>NodePlatform\<close> to the hook:
  \<^verbatim>\<open>onCompleteConnection\<close> is \<^verbatim>\<open>handleCompleteConnection\<close>, \<^verbatim>\<open>onDeleteConnection\<close> is the
  arrow function of lines 338 to 343 (it filters by identity), and \<^verbatim>\<open>onStartConnection\<close>
  is not passed, so that call does nothing.
\<close>

definition onDeleteConnection ::
  "'d AppState \<Rightarrow> 'd AppState History \<Rightarrow> Connection \<Rightarrow> 'd AppState History" where
  "onDeleteConnection rendered cur connection =
     set_hist maxHistory_default cur
       \<lparr>nodes = nodes rendered,
        connections = filter (\<lambda>c. oid c \<noteq> oid connection) (connections rendered)\<rparr>
       False"

fun runCallbacks :: "'d AppState \<Rightarrow> 'd AppState History \<Rightarrow> callback list \<Rightarrow> 'd AppState History" where
  "runCallbacks rendered cur [] = cur"
| "runCallbacks rendered cur (OnCompleteConnection c # calls) =
     runCallbacks rendered (handleCompleteConnection rendered cur c) calls"
| "runCallbacks rendered cur (OnDeleteConnection c # calls) =
     runCallbacks rendered (onDeleteConnection rendered cur c) calls"
| "runCallbacks rendered cur (OnStartConnection i q # calls) = runCallbacks rendered cur calls"

section \<open>Keyboard shortcuts (components/NodePlatform/hooks/useKeyboardShortcuts.ts)\<close>

record KeyboardEvent = Modifiers +
  key :: string

text \<open>
  What \<^verbatim>\<open>handleKeyDown\<close> reads. \<open>kb_clipboard\<close> is \<^verbatim>\<open>clipboardRef.current\<close>,
  \<open>kb_platformMounted\<close> says that \<^verbatim>\<open>platformRef.current\<close> is not \<^verbatim>\<open>null\<close>. The callbacks
  (\<^verbatim>\<open>onNodeDelete\<close>, \<^verbatim>\<open>onNodeSelect\<close>, \<^verbatim>\<open>onNodeMove\<close>, \<^verbatim>\<open>onPasteNodes\<close>) are all given, as
  \<^verbatim>\<open>NodeSystem\<close> gives them.
\<close>

record 'd KeyboardShortcutsConfig =
  kb_nodes :: "'d NodeData list"
  kb_blockMenuOpen :: bool
  kb_mousePosition :: Point
  kb_clipboard :: "'d NodeData list"
  kb_platformMounted :: bool

text \<open>
  What one key press does: the branch taken, with the arguments of the callbacks it
  calls. \<open>NodeMoves\<close> lists the calls of \<^verbatim>\<open>onNodeMove(id, x, y)\<close> in the order the
  \<^verbatim>\<open>forEach\<close> makes them. The nodes a paste builds take their ids from the clock and the
  random generator and are not modelled.
\<close>

datatype 'd key_action =
    NoAction
  | BlockMenuOpen Point
  | DeleteNodes "string list"
  | CopyNodes "'d NodeData list"
  | CutNodes "'d NodeData list" "string list"
  | PasteClipboard
  | NodeMoves "(string \<times> real \<times> real) list"

definition handleKeyDown :: "'d KeyboardShortcutsConfig \<Rightarrow> KeyboardEvent \<Rightarrow> 'd key_action" where
  "handleKeyDown cfg e =
     (let isCtrlOrCmd = (ctrlKey e \<or> metaKey e);
          selectedNodes = filter (\<lambda>n. truthy_bool (node_selected n)) (kb_nodes cfg)
      in if shiftKey e \<and> key e = ''A'' \<and> \<not> kb_blockMenuOpen cfg
         then BlockMenuOpen \<lparr>pt_x = pt_x (kb_mousePosition cfg), pt_y = pt_y (kb_mousePosition cfg)\<rparr>
         else if key e = ''Delete'' \<or> key e = ''Backspace''
         then (if length selectedNodes > 0 then DeleteNodes (map node_id selectedNodes) else NoAction)
         else if isCtrlOrCmd \<and> (key e = ''c'' \<or> key e = ''C'')
         then (if length selectedNodes > 0
               then CopyNodes (map (\<lambda>node. node\<lparr>node_selected := Some False\<rparr>) selectedNodes)
               else NoAction)
         else if isCtrlOrCmd \<and> (key e = ''x'' \<or> key e = ''X'')
         then (if length selectedNodes > 0
               then CutNodes (map (\<lambda>node. node\<lparr>node_selected := Some False\<rparr>) selectedNodes)
                      (map node_id selectedNodes)
               else NoAction)
         else if isCtrlOrCmd \<and> key e = ''v''
         then (if length (kb_clipboard cfg) > 0 \<and> kb_platformMounted cfg then PasteClipboard else NoAction)
         else if key e = ''ArrowUp'' \<or> key e = ''ArrowDown'' \<or> key e = ''ArrowLeft'' \<or> key e = ''ArrowRight''
         then (if length selectedNodes > 0
               then (if \<not> isCtrlOrCmd
                     then
                       let step = (if shiftKey e then 50 else 10);
                           dx = (if key e = ''ArrowUp'' then 0
                                 else if key e = ''ArrowDown'' then 0
                                 else if key e = ''ArrowLeft'' then - step
                                 else if key e = ''ArrowRight'' then step
                                 else 0);
                           dy = (if key e = ''ArrowUp'' then - step
                                 else if key e = ''ArrowDown'' then step
                                 else 0)
                       in NodeMoves (map (\<lambda>node. (node_id node, node_x node + dx, node_y node + dy)) selectedNodes)
                     else NoAction)
               else NoAction)
         else NoAction)"

text \<open>
  The calls of \<^verbatim>\<open>onNodeMove\<close> reach \<^verbatim>\<open>handleNodeMove\<close> of the coordinator one after the
  other, inside the one key event: each call builds its snapshot from the same rendered
  \<^verbatim>\<open>nodes\<close>, and its \<^verbatim>\<open>set\<close> runs on the history the call before left.
\<close>

definition runNodeMoves ::
  "'d AppState \<Rightarrow> bool \<Rightarrow> 'd AppState History \<Rightarrow> (string \<times> real \<times> real) list \<Rightarrow> 'd AppState History" where
  "runNodeMoves rendered isDragging cur moves =
     foldl (\<lambda>h (i, x, y). handleNodeMove rendered isDragging h i x y) cur moves"

section \<open>The scenarios of the spec (section 8)\<close>

text \<open>
  Concrete inputs for the scenarios: the node types \<^verbatim>\<open>add\<close> and \<^verbatim>\<open>subtract\<close> of
  \<^verbatim>\<open>examples/example1\<close> (ports \<^verbatim>\<open>A\<close>, \<^verbatim>\<open>B\<close>, \<^verbatim>\<open>Result\<close> of type \<^verbatim>\<open>number\<close>), a type with
  boolean ports, four nodes and one connection from \<^verbatim>\<open>Add.Result\<close> to \<^verbatim>\<open>Subtract.B\<close>.
  \<open>wire a f fp t tp\<close> is the connection object at address \<open>a\<close> from port \<open>fp\<close> of node \<open>f\<close>
  to port \<open>tp\<close> of node \<open>t\<close>; \<open>dragging nc\<close> is the gesture state during the drag \<open>nc\<close>.
\<close>

definition numberPort :: "string \<Rightarrow> PortDef" where
  "numberPort n = \<lparr>port_name = n, port_type = ''number''\<rparr>"

definition booleanPort :: "string \<Rightarrow> PortDef" where
  "booleanPort n = \<lparr>port_name = n, port_type = ''boolean''\<rparr>"

definition scenario_nodeTypes :: "string \<Rightarrow> NodeTypeDef option" where
  "scenario_nodeTypes =
     map_of
       [(''add'', \<lparr>type_id = ''add'', inputs = [numberPort ''A'', numberPort ''B''],
                  outputs = [numberPort ''Result'']\<rparr>),
        (''subtract'', \<lparr>type_id = ''subtract'', inputs = [numberPort ''A'', numberPort ''B''],
                       outputs = [numberPort ''Result'']\<rparr>),
        (''gate'', \<lparr>type_id = ''gate'', inputs = [booleanPort ''Enable''],
                   outputs = [booleanPort ''Out'']\<rparr>)]"

definition scenario_node :: "string \<Rightarrow> string \<Rightarrow> real \<Rightarrow> real \<Rightarrow> bool \<Rightarrow> unit NodeData" where
  "scenario_node i ty x y sel =
     \<lparr>node_id = i, node_type = ty, node_x = x, node_y = y, node_width = None, node_height = None,
      node_data = None, node_selected = Some sel\<rparr>"

definition wire :: "nat \<Rightarrow> string \<Rightarrow> string \<Rightarrow> string \<Rightarrow> string \<Rightarrow> Connection" where
  "wire a f fp t tp =
     \<lparr>oid = a, conn_from = \<lparr>nodeId = f, port = fp, portDef = None\<rparr>,
      conn_to = \<lparr>nodeId = t, port = tp, portDef = None\<rparr>\<rparr>"

definition scenario_state :: "unit AppState" where
  "scenario_state =
     \<lparr>nodes = [scenario_node ''Add'' ''add'' 0 0 True, scenario_node ''Subtract'' ''subtract'' 300 0 True,
               scenario_node ''Gate'' ''gate'' 300 200 False, scenario_node ''Add2'' ''add'' 0 200 False],
      connections = [wire 0 ''Add'' ''Result'' ''Subtract'' ''B'']\<rparr>"

definition scenario_config :: "unit UseConnectionDragConfig" where
  "scenario_config =
     \<lparr>cfg_nodes = nodes scenario_state, cfg_edges = connections scenario_state,
      cfg_nodeTypes = scenario_nodeTypes, cfg_portPositions = (\<lambda>k. None),
      cfg_offset = \<lparr>pt_x = 0, pt_y = 0\<rparr>, cfg_scale = 1, cfg_platformRect = Some \<lparr>pt_x = 0, pt_y = 0\<rparr>\<rparr>"

text \<open>
  The same props with a fifth node of type \<^verbatim>\<open>add\<close> whose id is the empty string.
\<close>

definition scenario_config_empty_id :: "unit UseConnectionDragConfig" where
  "scenario_config_empty_id =
     scenario_config\<lparr>cfg_nodes := nodes scenario_state @ [scenario_node [] ''add'' 600 0 False]\<rparr>"

definition dragFromOutput :: "string \<Rightarrow> PortDef \<Rightarrow> NewConnection" where
  "dragFromOutput i q =
     \<lparr>nc_from = Some \<lparr>nodeId = i, port = port_name q, portDef = Some q\<rparr>, nc_to = None\<rparr>"

definition dragging :: "NewConnection \<Rightarrow> GestureState" where
  "dragging nc =
     \<lparr>newConnection = Some nc,
      connectionPreview = Some \<lparr>pv_start = \<lparr>pt_x = 0, pt_y = 0\<rparr>, pv_end = \<lparr>pt_x = 1, pt_y = 1\<rparr>\<rparr>,
      warningMessage = None\<rparr>"

definition scenario_history :: "unit AppState History" where
  "scenario_history = \<lparr>past = [], present = scenario_state, future = []\<rparr>"

text \<open>The definitions of the scenarios and of the pointer-up, for evaluating them.\<close>

lemmas scen_defs = numberPort_def booleanPort_def scenario_nodeTypes_def scenario_node_def wire_def
  scenario_state_def scenario_config_def scenario_config_empty_id_def dragFromOutput_def dragging_def
  scenario_history_def

lemmas drag_defs = handlePortPointerUp_def validateConnection_def resolveEndpoints_def
  fromPortDefOf_def toPortDefOf_def nodeTypeOf_def isDuplicate_def inputAlreadyConnected_def
  handleCompleteConnection_def set_hist_def maxHistory_default_def Let_def

section \<open>Properties of the history store\<close>

lemma set_hist_replace [simp]:
  "set_hist m h x True = h\<lparr>present := x\<rparr>"
  by (simp add: set_hist_def)

lemma past_set_hist_commit:
  "past (set_hist m h x False) =
     (if length (past h) + 1 > m then drop 1 (past h @ [present h]) else past h @ [present h])"
  by (simp add: set_hist_def Let_def)

lemma present_set_hist [simp]: "present (set_hist m h x r) = x"
  by (simp add: set_hist_def Let_def)

lemma future_set_hist_commit [simp]: "future (set_hist m h x False) = []"
  by (simp add: set_hist_def Let_def)

lemma set_all_Nil [simp]: "set_all m r h [] = h"
  by (simp add: set_all_def)

lemma set_all_Cons [simp]: "set_all m r h (x # xs) = set_all m r (set_hist m h x r) xs"
  by (simp add: set_all_def)

lemma set_all_snoc: "set_all m r h (xs @ [x]) = set_hist m (set_all m r h xs) x r"
  by (simp add: set_all_def)

lemma present_set_all: "present (set_all m r h xs) = last (present h # xs)"
  by (induction xs arbitrary: h) auto

lemma past_set_all_replace [simp]: "past (set_all m True h xs) = past h"
  by (induction xs arbitrary: h) auto

lemma future_set_all_replace [simp]: "future (set_all m True h xs) = future h"
  by (induction xs arbitrary: h) auto


lemma past_set_all_commit:
  "length (past h) \<le> m \<Longrightarrow>
   past (set_all m False h xs) =
     (let pushed = past h @ butlast (present h # xs) in drop (length pushed - m) pushed)"
proof (induction xs rule: rev_induct)
  case Nil
  then show ?case by simp
next
  case (snoc x xs)
  define P where "P = past h @ butlast (present h # xs)"
  define l where "l = last (present h # xs)"
  define H where "H = set_all m False h xs"
  have pH: "past H = drop (length P - m) P"
    using snoc by (simp add: P_def H_def Let_def)
  have prH: "present H = l"
    by (simp add: H_def l_def present_set_all)
  have P': "past h @ butlast (present h # xs @ [x]) = P @ [l]"
    unfolding P_def l_def
    by (metis append.assoc append_Cons append_butlast_last_id butlast_snoc list.distinct(1))
  have step: "past (set_all m False h (xs @ [x])) =
      (if length (past H) + 1 > m then drop 1 (past H @ [l]) else past H @ [l])"
    by (simp add: set_all_snoc past_set_hist_commit H_def[symmetric] prH)
  show ?case
  proof (cases "length P < m")
    case True
    then show ?thesis
      unfolding step Let_def P' by (simp add: pH)
  next
    case False
    then show ?thesis
      unfolding step Let_def P' by (simp add: pH Suc_diff_le)
  qed
qed


lemma take_snoc_last: "p \<noteq> [] \<Longrightarrow> take (length p - 1) p @ [p ! (length p - 1)] = p"
  by (metis append_butlast_last_id butlast_conv_take last_conv_nth)

lemma redo_undo: "past h \<noteq> [] \<Longrightarrow> redo (undo h) = h"
proof -
  assume ne: "past h \<noteq> []"
  have "redo (undo h) =
      \<lparr>past = take (length (past h) - 1) (past h) @ [past h ! (length (past h) - 1)],
       present = present h, future = future h\<rparr>"
    using ne by (simp add: undo_def redo_def Let_def)
  also have "\<dots> = h"
    using take_snoc_last [OF ne] by simp
  finally show ?thesis .
qed

text \<open>
  Claim C3, as amended. After 51 commits without \<^verbatim>\<open>replace\<close> from an empty past, the past
  holds exactly 50 snapshots: the initial present, which was the first one pushed, has
  been dropped, and the 50 that remain are the first 50 committed values. A run of
  \<^verbatim>\<open>replace: true\<close> commits leaves past and future alone, and the commit that follows
  pushes exactly one snapshot: the present at that moment, which is the value of the last
  replace (the present from before the run only when the run is empty); the oldest
  snapshot is dropped when the past would exceed 50.
\<close>

theorem history_bound_and_coalescing:
  "(past h = [] \<and> length xs = 51 \<longrightarrow>
      length (past (set_all maxHistory_default False h xs)) = 50 \<and>
      past (set_all maxHistory_default False h xs) = drop 1 (present h # butlast xs) \<and>
      present (set_all maxHistory_default False h xs) = last xs) \<and>
   past (set_hist maxHistory_default (set_all maxHistory_default True h rs) x False) =
     (let newPast = past h @ [last (present h # rs)]
      in if length newPast > maxHistory_default then drop 1 newPast else newPast) \<and>
   past (set_all maxHistory_default True h rs) = past h \<and>
   future (set_all maxHistory_default True h rs) = future h"
proof -
  have "length (past (set_all maxHistory_default False h xs)) = 50 \<and>
        past (set_all maxHistory_default False h xs) = drop 1 (present h # butlast xs) \<and>
        present (set_all maxHistory_default False h xs) = last xs"
    if "past h = []" "length xs = 51"
  proof -
    have "xs \<noteq> []" using that by auto
    then show ?thesis
      using that past_set_all_commit [of h maxHistory_default xs]
      by (simp add: Let_def maxHistory_default_def present_set_all)
  qed
  moreover have "past (set_hist maxHistory_default (set_all maxHistory_default True h rs) x False) =
     (let newPast = past h @ [last (present h # rs)]
      in if length newPast > maxHistory_default then drop 1 newPast else newPast)"
    by (simp add: past_set_hist_commit present_set_all Let_def)
  ultimately show ?thesis by simp
qed

text \<open>
  The claim as first stated names the snapshot pushed after a run of replaces as the
  present from before the run. After the replaces 1 and 2 on a present 0, the commit of 3
  pushes 2, not 0.
\<close>

theorem history_coalescing_counterexample:
  "past (set_hist maxHistory_default
           (set_all maxHistory_default True \<lparr>past = [], present = 0::nat, future = []\<rparr> [1, 2]) 3 False) = [2] \<and>
   past (set_hist maxHistory_default
           (set_all maxHistory_default True \<lparr>past = [], present = 0::nat, future = []\<rparr> [1, 2]) 3 False)
     \<noteq> past \<lparr>past = [], present = 0::nat, future = []\<rparr> @ [present \<lparr>past = [], present = 0::nat, future = []\<rparr>]"
  by (simp add: set_hist_def maxHistory_default_def)

text \<open>Fifty-one commits of 1, .., 51 on the present 0; and a run that evicts nothing.\<close>

theorem history_bound_and_coalescing_witness:
  "past \<lparr>past = [], present = 0::nat, future = []\<rparr> = [] \<and> length [1 ..< 52] = 51 \<and>
   length (past (set_all maxHistory_default False \<lparr>past = [], present = 0::nat, future = []\<rparr> [1 ..< 52])) = 50 \<and>
   past (set_all maxHistory_default False \<lparr>past = [], present = 0::nat, future = []\<rparr> [1 ..< 52]) = [1 ..< 51] \<and>
   present (set_all maxHistory_default False \<lparr>past = [], present = 0::nat, future = []\<rparr> [1 ..< 52]) = 51 \<and>
   past (set_hist maxHistory_default
           (set_all maxHistory_default True \<lparr>past = [7], present = 0::nat, future = [9]\<rparr> [1, 2]) 3 False) = [7, 2]"
  using history_bound_and_coalescing [of "\<lparr>past = [], present = 0::nat, future = []\<rparr>" "[1 ..< 52]" "[1, 2]" 3]
    history_bound_and_coalescing [of "\<lparr>past = [7], present = 0::nat, future = [9]\<rparr>" "[]" "[1, 2]" 3]
  by (simp add: maxHistory_default_def upt_rec butlast_append)

text \<open>
  Claim C4. With a non-empty past, \<^verbatim>\<open>undo\<close> followed by \<^verbatim>\<open>redo\<close> gives back the same
  history (past, present and future). \<^verbatim>\<open>undo\<close> does nothing on an empty past, \<^verbatim>\<open>redo\<close>
  nothing on an empty future, and right after a \<^verbatim>\<open>set\<close> without \<^verbatim>\<open>replace\<close> the future is
  empty, \<^verbatim>\<open>canRedo\<close> is false and \<^verbatim>\<open>redo\<close> changes nothing.
\<close>

theorem undo_redo_symmetry:
  "(past h \<noteq> [] \<longrightarrow> redo (undo h) = h) \<and>
   (past h = [] \<longrightarrow> undo h = h) \<and>
   (future h = [] \<longrightarrow> redo h = h) \<and>
   future (set_hist m h x False) = [] \<and>
   \<not> canRedo (set_hist m h x False) \<and>
   redo (set_hist m h x False) = set_hist m h x False"
  by (simp add: redo_undo canRedo_def) (simp add: undo_def redo_def)

theorem undo_redo_symmetry_witness:
  "past \<lparr>past = [1, 2], present = 3, future = [4::nat]\<rparr> \<noteq> [] \<and>
   undo \<lparr>past = [1, 2], present = 3, future = [4::nat]\<rparr> = \<lparr>past = [1], present = 2, future = [3, 4]\<rparr> \<and>
   redo (undo \<lparr>past = [1, 2], present = 3, future = [4::nat]\<rparr>) = \<lparr>past = [1, 2], present = 3, future = [4]\<rparr> \<and>
   undo \<lparr>past = [], present = 3, future = [4::nat]\<rparr> = \<lparr>past = [], present = 3, future = [4]\<rparr> \<and>
   redo \<lparr>past = [1, 2], present = 3, future = ([]::nat list)\<rparr> = \<lparr>past = [1, 2], present = 3, future = []\<rparr> \<and>
   set_hist 50 \<lparr>past = [1, 2], present = 3, future = [4::nat]\<rparr> 5 False = \<lparr>past = [1, 2, 3], present = 5, future = []\<rparr> \<and>
   redo (set_hist 50 \<lparr>past = [1, 2], present = 3, future = [4::nat]\<rparr> 5 False) = \<lparr>past = [1, 2, 3], present = 5, future = []\<rparr>"
  using undo_redo_symmetry [of "\<lparr>past = [1, 2], present = 3, future = [4::nat]\<rparr>" 50 5]
    undo_redo_symmetry [of "\<lparr>past = [], present = 3, future = [4::nat]\<rparr>" 50 5]
    undo_redo_symmetry [of "\<lparr>past = [1, 2], present = 3, future = ([]::nat list)\<rparr>" 50 5]
  by (simp add: undo_def set_hist_def)

section \<open>Properties of the coordinator\<close>

text \<open>
  Claim C10. Whatever is selected (one node, one node toggled with ctrl or cmd, a list of
  ids, or nothing), \<^verbatim>\<open>handleNodeSelect\<close> is one \<^verbatim>\<open>set\<close> with \<^verbatim>\<open>replace: true\<close>: past and
  future of the history stay as they were.
\<close>

theorem selection_keeps_history:
  "past (handleNodeSelect rendered cur target evt) = past cur \<and>
   future (handleNodeSelect rendered cur target evt) = future cur \<and>
   handleNodeSelect rendered cur target evt =
     set_hist maxHistory_default cur (present (handleNodeSelect rendered cur target evt)) True"
  by (simp add: handleNodeSelect_def split: option.split ids.split)

text \<open>
  Claim C8. After \<^verbatim>\<open>handleNodeDelete\<close>, no connection of the new snapshot has an endpoint
  on a deleted id and no node of it has a deleted id; if every connection of the snapshot
  the handler worked from referenced nodes of that snapshot (invariant I2), the same holds
  of the new snapshot; and the connections kept are exactly those with both endpoints on
  ids that were not deleted, unchanged and in their order.
\<close>

theorem delete_leaves_no_dangling_connection:
  "(\<forall>c \<in> set (connections (present (handleNodeDelete rendered cur target))).
      nodeId (conn_from c) \<notin> deleted_ids target \<and> nodeId (conn_to c) \<notin> deleted_ids target) \<and>
   (\<forall>n \<in> set (nodes (present (handleNodeDelete rendered cur target))).
      node_id n \<notin> deleted_ids target) \<and>
   (invariant_I2 rendered \<longrightarrow> invariant_I2 (present (handleNodeDelete rendered cur target))) \<and>
   connections (present (handleNodeDelete rendered cur target)) =
     filter (\<lambda>c. nodeId (conn_from c) \<notin> deleted_ids target \<and> nodeId (conn_to c) \<notin> deleted_ids target)
       (connections rendered) \<and>
   nodes (present (handleNodeDelete rendered cur target)) =
     filter (\<lambda>n. node_id n \<notin> deleted_ids target) (nodes rendered)"
proof -
  have p: "present (handleNodeDelete rendered cur target) =
     \<lparr>nodes = filter (\<lambda>n. node_id n \<notin> deleted_ids target) (nodes rendered),
      connections = filter (\<lambda>c. nodeId (conn_from c) \<notin> deleted_ids target \<and>
                                 nodeId (conn_to c) \<notin> deleted_ids target) (connections rendered)\<rparr>"
    by (cases target) (simp_all add: handleNodeDelete_def deleted_ids_def)
  show ?thesis
    unfolding p by (auto simp: invariant_I2_def list_all_iff)
qed

text \<open>
  Three connections among the four nodes; deleting \<^verbatim>\<open>Add2\<close> and \<^verbatim>\<open>Gate\<close> keeps the one
  connection between the survivors.
\<close>

theorem delete_leaves_no_dangling_connection_witness:
  "invariant_I2 \<lparr>nodes = nodes scenario_state,
       connections = [wire 0 ''Add'' ''Result'' ''Subtract'' ''B'', wire 1 ''Add'' ''Result'' ''Add2'' ''A'',
                      wire 2 ''Add2'' ''Result'' ''Subtract'' ''A'']\<rparr> \<and>
   present (handleNodeDelete \<lparr>nodes = nodes scenario_state,
       connections = [wire 0 ''Add'' ''Result'' ''Subtract'' ''B'', wire 1 ''Add'' ''Result'' ''Add2'' ''A'',
                      wire 2 ''Add2'' ''Result'' ''Subtract'' ''A'']\<rparr> scenario_history (Several [''Add2'', ''Gate'']))
     = \<lparr>nodes = [scenario_node ''Add'' ''add'' 0 0 True, scenario_node ''Subtract'' ''subtract'' 300 0 True],
        connections = [wire 0 ''Add'' ''Result'' ''Subtract'' ''B'']\<rparr> \<and>
   invariant_I2 (present (handleNodeDelete \<lparr>nodes = nodes scenario_state,
       connections = [wire 0 ''Add'' ''Result'' ''Subtract'' ''B'', wire 1 ''Add'' ''Result'' ''Add2'' ''A'',
                      wire 2 ''Add2'' ''Result'' ''Subtract'' ''A'']\<rparr> scenario_history (Several [''Add2'', ''Gate''])))"
  using delete_leaves_no_dangling_connection [of "\<lparr>nodes = nodes scenario_state,
       connections = [wire 0 ''Add'' ''Result'' ''Subtract'' ''B'', wire 1 ''Add'' ''Result'' ''Add2'' ''A'',
                      wire 2 ''Add2'' ''Result'' ''Subtract'' ''A'']\<rparr>" scenario_history "Several [''Add2'', ''Gate'']"]
  by (simp add: scen_defs invariant_I2_def deleted_ids_def)

lemma connections_handleSpliceNode:
  "connections (present (handleSpliceNode stateRef cur alloc nid X inputPort outputPort newX newY)) =
     filter (\<lambda>c. oid c \<noteq> oid X) (connections stateRef)
       @ [\<lparr>oid = alloc, conn_from = conn_from X,
            conn_to = \<lparr>nodeId = nid, port = inputPort, portDef = None\<rparr>\<rparr>,
          \<lparr>oid = alloc + 1, conn_from = \<lparr>nodeId = nid, port = outputPort, portDef = None\<rparr>,
            conn_to = conn_to X\<rparr>]"
  by (simp add: handleSpliceNode_def Let_def)

text \<open>
  Claim C5, as amended. A splice of the chosen connection object \<open>X\<close> through node \<open>nid\<close>
  leaves the current list without every occurrence of that object (the filter compares
  identity), followed by exactly two new connections: from the source endpoint of \<open>X\<close> to
  the chosen input of \<open>nid\<close>, and from the chosen output of \<open>nid\<close> to the destination
  endpoint of \<open>X\<close>; every other connection object stays, in its order. The object \<open>X\<close>
  is not in the result (it existed before the call, so its address is below \<open>alloc\<close>).
  No connection with the four fields of \<open>X\<close> is left when no other object of the list
  carries those four fields and \<open>X\<close> does not touch \<open>nid\<close> (the loop of \<^verbatim>\<open>NodePlatform\<close>
  that chooses the connection skips every edge with an endpoint on the dropped node).
\<close>

theorem splice_rewires_chosen_connection:
  "connections (present (handleSpliceNode stateRef cur alloc nid X inputPort outputPort newX newY)) =
     filter (\<lambda>c. oid c \<noteq> oid X) (connections stateRef)
       @ [\<lparr>oid = alloc, conn_from = conn_from X,
            conn_to = \<lparr>nodeId = nid, port = inputPort, portDef = None\<rparr>\<rparr>,
          \<lparr>oid = alloc + 1, conn_from = \<lparr>nodeId = nid, port = outputPort, portDef = None\<rparr>,
            conn_to = conn_to X\<rparr>] \<and>
   (oid X < alloc \<longrightarrow>
      (\<forall>c \<in> set (connections (present
          (handleSpliceNode stateRef cur alloc nid X inputPort outputPort newX newY))). oid c \<noteq> oid X)) \<and>
   ((\<forall>c \<in> set (connections stateRef). same_fields c X \<longrightarrow> oid c = oid X) \<and>
    nodeId (conn_from X) \<noteq> nid \<and> nodeId (conn_to X) \<noteq> nid \<longrightarrow>
      (\<forall>c \<in> set (connections (present
          (handleSpliceNode stateRef cur alloc nid X inputPort outputPort newX newY))). \<not> same_fields c X))"
  unfolding connections_handleSpliceNode
  by (auto simp: same_fields_def)

text \<open>
  The claim as first stated says that the result no longer contains the connection from
  \<open>X\<close>'s source to \<open>X\<close>'s destination. Two inputs where it still does. First, the list
  holds two objects with the fields \<^verbatim>\<open>Add.Result\<close> to \<^verbatim>\<open>Subtract.B\<close> (an earlier splice adds
  its two connections without looking for duplicates) and the first is spliced: the second
  stays. Second, the object handed over is a copy of the list's connection (the edges
  \<^verbatim>\<open>NodePlatform\<close> chooses from are those \<^verbatim>\<open>returningCallback\<close> returned): nothing is
  removed.
\<close>

theorem splice_counterexample:
  "connections (present (handleSpliceNode
       \<lparr>nodes = nodes scenario_state,
        connections = [wire 0 ''Add'' ''Result'' ''Subtract'' ''B'', wire 1 ''Add'' ''Result'' ''Subtract'' ''B'']\<rparr>
       scenario_history 2 ''Add2'' (wire 0 ''Add'' ''Result'' ''Subtract'' ''B'') ''A'' ''Result'' None None))
     = [wire 1 ''Add'' ''Result'' ''Subtract'' ''B'', wire 2 ''Add'' ''Result'' ''Add2'' ''A'',
        wire 3 ''Add2'' ''Result'' ''Subtract'' ''B''] \<and>
   same_fields (wire 1 ''Add'' ''Result'' ''Subtract'' ''B'') (wire 0 ''Add'' ''Result'' ''Subtract'' ''B'') \<and>
   connections (present (handleSpliceNode scenario_state scenario_history 6 ''Add2''
       (wire 5 ''Add'' ''Result'' ''Subtract'' ''B'') ''A'' ''Result'' None None))
     = [wire 0 ''Add'' ''Result'' ''Subtract'' ''B'', wire 6 ''Add'' ''Result'' ''Add2'' ''A'',
        wire 7 ''Add2'' ''Result'' ''Subtract'' ''B''] \<and>
   same_fields (wire 0 ''Add'' ''Result'' ''Subtract'' ''B'') (wire 5 ''Add'' ''Result'' ''Subtract'' ''B'')"
  by (simp add: handleSpliceNode_def scen_defs same_fields_def set_hist_def maxHistory_default_def Let_def)

text \<open>Scenario D: \<^verbatim>\<open>Add2\<close> dropped on the only connection, which is the list's own object.\<close>

theorem splice_rewires_chosen_connection_witness:
  "oid (wire 0 ''Add'' ''Result'' ''Subtract'' ''B'') < 1 \<and>
   list_all (\<lambda>c. \<not> same_fields c (wire 0 ''Add'' ''Result'' ''Subtract'' ''B'') \<or> oid c = 0)
     (connections scenario_state) \<and>
   nodeId (conn_from (wire 0 ''Add'' ''Result'' ''Subtract'' ''B'')) \<noteq> ''Add2'' \<and>
   nodeId (conn_to (wire 0 ''Add'' ''Result'' ''Subtract'' ''B'')) \<noteq> ''Add2'' \<and>
   connections (present (handleSpliceNode scenario_state scenario_history 1 ''Add2''
       (wire 0 ''Add'' ''Result'' ''Subtract'' ''B'') ''A'' ''Result'' None None))
     = [wire 1 ''Add'' ''Result'' ''Add2'' ''A'', wire 2 ''Add2'' ''Result'' ''Subtract'' ''B''] \<and>
   list_all (\<lambda>c. \<not> same_fields c (wire 0 ''Add'' ''Result'' ''Subtract'' ''B''))
     (connections (present (handleSpliceNode scenario_state scenario_history 1 ''Add2''
       (wire 0 ''Add'' ''Result'' ''Subtract'' ''B'') ''A'' ''Result'' None None)))"
  using splice_rewires_chosen_connection [of scenario_state scenario_history 1 "''Add2''"
      "wire 0 ''Add'' ''Result'' ''Subtract'' ''B''" "''A''" "''Result''" None None]
  by (simp add: scen_defs same_fields_def)

section \<open>Properties of pan and zoom\<close>

lemma scale_handleWheel_range:
  "0.2 \<le> scale s \<and> scale s \<le> 2 \<Longrightarrow> 0.2 \<le> scale (handleWheel s e) \<and> scale (handleWheel s e) \<le> 2"
  by (auto simp: handleWheel_def Let_def min_def max_def)

lemma scale_wheel_sequence_range:
  "0.2 \<le> scale s \<and> scale s \<le> 2 \<Longrightarrow>
     0.2 \<le> scale (foldl handleWheel s es) \<and> scale (foldl handleWheel s es) \<le> 2"
proof (induction es arbitrary: s)
  case Nil
  then show ?case by simp
next
  case (Cons e es)
  from Cons.prems have "0.2 \<le> scale (handleWheel s e) \<and> scale (handleWheel s e) \<le> 2"
    by (rule scale_handleWheel_range)
  then show ?case using Cons.IH by simp
qed

text \<open>
  Claim C9 (numbers as reals). A wheel event with ctrl or cmd held sets the scale to the
  previous scale plus \<open>- deltaY * 0.001\<close>, clamped to \<open>[0.2, 2]\<close>, and moves \<open>offset.x\<close>
  by \<open>- deltaY\<close> (\<open>offset.y\<close> stays); a plain wheel event moves only \<open>offset.y\<close> by
  \<open>- deltaY\<close> (scale and \<open>offset.x\<close> stay); and from a scale in \<open>[0.2, 2]\<close> every
  sequence of wheel events ends with a scale in \<open>[0.2, 2]\<close>.
\<close>

theorem wheel_zoom_and_pan:
  "(ctrlKey e \<or> metaKey e \<longrightarrow>
      scale (handleWheel s e) = min (max 0.2 (scale s + (- deltaY e * 0.001))) 2 \<and>
      0.2 \<le> scale (handleWheel s e) \<and> scale (handleWheel s e) \<le> 2 \<and>
      pt_x (offset (handleWheel s e)) = pt_x (offset s) - deltaY e \<and>
      pt_y (offset (handleWheel s e)) = pt_y (offset s)) \<and>
   (\<not> ctrlKey e \<and> \<not> metaKey e \<longrightarrow>
      scale (handleWheel s e) = scale s \<and>
      pt_x (offset (handleWheel s e)) = pt_x (offset s) \<and>
      pt_y (offset (handleWheel s e)) = pt_y (offset s) - deltaY e) \<and>
   (0.2 \<le> scale s \<and> scale s \<le> 2 \<longrightarrow>
      0.2 \<le> scale (foldl handleWheel s es) \<and> scale (foldl handleWheel s es) \<le> 2)"
  using scale_wheel_sequence_range [of s es]
  by (auto simp: handleWheel_def Let_def min_def max_def)

text \<open>
  From the initial view (scale 1): ctrl+wheel by 100 zooms to 0.9 and shifts \<open>offset.x\<close>;
  a plain wheel by 100 shifts \<open>offset.y\<close>; cmd+wheel by -5000 stops at 2; and two
  ctrl+wheels by 700 around a plain one stop at 0.2.
\<close>

theorem wheel_zoom_and_pan_witness:
  "ctrlKey \<lparr>ctrlKey = True, metaKey = False, shiftKey = False, deltaY = 100\<rparr> \<and>
   handleWheel usePanning_initial \<lparr>ctrlKey = True, metaKey = False, shiftKey = False, deltaY = 100\<rparr> =
     \<lparr>offset = \<lparr>pt_x = - 100, pt_y = 0\<rparr>, scale = 0.9\<rparr> \<and>
   handleWheel usePanning_initial \<lparr>ctrlKey = False, metaKey = False, shiftKey = False, deltaY = 100\<rparr> =
     \<lparr>offset = \<lparr>pt_x = 0, pt_y = - 100\<rparr>, scale = 1\<rparr> \<and>
   scale (handleWheel usePanning_initial \<lparr>ctrlKey = False, metaKey = True, shiftKey = False, deltaY = -5000\<rparr>) = 2 \<and>
   0.2 \<le> scale usePanning_initial \<and> scale usePanning_initial \<le> 2 \<and>
   scale (foldl handleWheel usePanning_initial
      [\<lparr>ctrlKey = True, metaKey = False, shiftKey = False, deltaY = 700\<rparr>,
       \<lparr>ctrlKey = False, metaKey = False, shiftKey = False, deltaY = 30\<rparr>,
       \<lparr>ctrlKey = True, metaKey = False, shiftKey = False, deltaY = 700\<rparr>]) = 0.2"
  using wheel_zoom_and_pan [of "\<lparr>ctrlKey = True, metaKey = False, shiftKey = False, deltaY = 100\<rparr>" usePanning_initial
      "[\<lparr>ctrlKey = True, metaKey = False, shiftKey = False, deltaY = 700\<rparr>,
       \<lparr>ctrlKey = False, metaKey = False, shiftKey = False, deltaY = 30\<rparr>,
       \<lparr>ctrlKey = True, metaKey = False, shiftKey = False, deltaY = 700\<rparr>]"]
    wheel_zoom_and_pan [of "\<lparr>ctrlKey = False, metaKey = False, shiftKey = False, deltaY = 100\<rparr>"
      usePanning_initial "[]"]
  by (simp add: handleWheel_def usePanning_initial_def Let_def)

section \<open>Properties of the connection drag\<close>

lemma validate_spec:
  "validateConnection cfg alloc f fp t tp =
     (case spec_rejection cfg f fp t tp of
        Some m \<Rightarrow> Inl m
      | None \<Rightarrow> Inr \<lparr>oid = alloc, conn_from = \<lparr>nodeId = f, port = fp, portDef = None\<rparr>,
                     conn_to = \<lparr>nodeId = t, port = tp, portDef = None\<rparr>\<rparr>)"
  by (auto simp: validateConnection_def spec_rejection_def spec_type_name_def isDuplicate_def
        inputAlreadyConnected_def same_fields_def split: option.splits)

lemma validate_commit_iff:
  "(\<exists>c. validateConnection cfg alloc f fp t tp = Inr c) \<longleftrightarrow>
     ((\<exists>fd td. fromPortDefOf cfg f fp = Some fd \<and> toPortDefOf cfg t tp = Some td \<and>
              port_type fd = port_type td) \<and>
      f \<noteq> t \<and>
      \<not> (\<exists>e \<in> set (cfg_edges cfg).
            nodeId (conn_from e) = f \<and> port (conn_from e) = fp \<and>
            nodeId (conn_to e) = t \<and> port (conn_to e) = tp) \<and>
      \<not> (\<exists>e \<in> set (cfg_edges cfg). nodeId (conn_to e) = t \<and> port (conn_to e) = tp))"
  by (auto simp: validateConnection_def isDuplicate_def inputAlreadyConnected_def list_ex_iff
        fromPortDefOf_def toPortDefOf_def split: option.splits)

lemma validate_Inr:
  "validateConnection cfg alloc f fp t tp = Inr c \<Longrightarrow>
     c = \<lparr>oid = alloc, conn_from = \<lparr>nodeId = f, port = fp, portDef = None\<rparr>,
          conn_to = \<lparr>nodeId = t, port = tp, portDef = None\<rparr>\<rparr>"
  by (auto simp: validateConnection_def split: option.splits if_splits)

lemma pointer_up_resolved:
  assumes "newConnection st = Some nc"
    and "resolveEndpoints nc nid p dir = (Some f, Some fp, Some t, Some tp)"
    and "f \<noteq> []" "fp \<noteq> []" "t \<noteq> []" "tp \<noteq> []"
  shows "handlePortPointerUp cfg alloc st nid p dir =
     (case validateConnection cfg alloc f fp t tp of
        Inl message \<Rightarrow>
          (st\<lparr>warningMessage := Some message, newConnection := None, connectionPreview := None\<rparr>, [])
      | Inr connection \<Rightarrow>
          (st\<lparr>newConnection := None, connectionPreview := None\<rparr>, [OnCompleteConnection connection]))"
  using assms by (simp add: handlePortPointerUp_def)

lemma pointer_up_missing:
  assumes "newConnection st = Some nc"
    and "resolveEndpoints nc nid p dir = (a, b, c, d)"
    and "\<not> (truthy_str a \<and> truthy_str b \<and> truthy_str c \<and> truthy_str d)"
  shows "handlePortPointerUp cfg alloc st nid p dir =
     (st\<lparr>newConnection := None, connectionPreview := None\<rparr>, [])"
  using assms by (auto simp: handlePortPointerUp_def)

lemma pointer_up_clears_newConnection:
  "newConnection (fst (handlePortPointerUp cfg alloc st nid p dir)) = None"
  by (auto simp: handlePortPointerUp_def split: option.splits prod.splits sum.splits)

lemma pointer_up_clears_preview:
  "newConnection st \<noteq> None \<Longrightarrow> connectionPreview (fst (handlePortPointerUp cfg alloc st nid p dir)) = None"
  by (auto simp: handlePortPointerUp_def split: option.splits prod.splits sum.splits)

lemma pointer_up_idle:
  "newConnection st = None \<Longrightarrow> handlePortPointerUp cfg alloc st nid p dir = (st, [])"
  by (simp add: handlePortPointerUp_def)

text \<open>
  In every reachable gesture state the two cells of the hook are set together or clear
  together.
\<close>

lemma reachable_cells_agree:
  "reachable st \<Longrightarrow> (newConnection st = None \<longleftrightarrow> connectionPreview st = None)"
proof (induction rule: reachable.induct)
  case initial
  then show ?case by (simp add: gesture_initial_def)
next
  case (portDown st cfg nid p dir clientX clientY)
  then show ?case
    by (auto simp: handlePortPointerDown_def Let_def split: option.splits prod.splits if_splits)
next
  case (portUp st cfg alloc nid p dir)
  show ?case
  proof (cases "newConnection st")
    case None
    then show ?thesis using portUp.IH by (simp add: pointer_up_idle)
  next
    case (Some nc)
    then show ?thesis
      using pointer_up_clears_preview [of st cfg alloc nid p dir]
        pointer_up_clears_newConnection [of cfg alloc st nid p dir] by simp
  qed
next
  case (move st cfg clientX clientY)
  then show ?case
    by (auto simp: handlePointerMove_def split: option.splits prod.splits)
next
  case (up st)
  then show ?case by (simp add: handlePointerUp_def)
next
  case (warningCleared st)
  then show ?case by simp
qed

text \<open>
  Claim C1, as amended. A port pointer-up during a drag, with both endpoints resolved to
  node ids and port names that are not empty (the four identifiers \<open>f\<close>, \<open>fp\<close>, \<open>t\<close>,
  \<open>tp\<close>; the handler tests them for truthiness, and an empty string fails that test as
  an absent one does). The handler calls \<^verbatim>\<open>onCompleteConnection\<close> if and only if the
  output port \<open>fp\<close> of \<open>f\<close>'s type and the input port \<open>tp\<close> of \<open>t\<close>'s type resolve and have
  the same type, \<open>f\<close> differs from \<open>t\<close>, no edge has the same four fields, and no edge ends
  at input \<open>tp\<close> of \<open>t\<close>. It makes no other call: on refusal the history is untouched, and
  on commit the coordinator appends exactly the connection from \<open>(f, fp)\<close> to \<open>(t, tp)\<close>
  (without port definitions) to its connections and keeps its nodes.
\<close>

theorem connection_commit_iff:
  assumes "newConnection st = Some nc"
    and "resolveEndpoints nc nid p dir = (Some f, Some fp, Some t, Some tp)"
    and "f \<noteq> []" and "fp \<noteq> []" and "t \<noteq> []" and "tp \<noteq> []"
  shows
    "((\<exists>c. snd (handlePortPointerUp cfg alloc st nid p dir) = [OnCompleteConnection c]) \<longleftrightarrow>
        (\<exists>fd td. fromPortDefOf cfg f fp = Some fd \<and> toPortDefOf cfg t tp = Some td \<and>
                 port_type fd = port_type td) \<and>
        f \<noteq> t \<and>
        \<not> (\<exists>e \<in> set (cfg_edges cfg).
              nodeId (conn_from e) = f \<and> port (conn_from e) = fp \<and>
              nodeId (conn_to e) = t \<and> port (conn_to e) = tp) \<and>
        \<not> (\<exists>e \<in> set (cfg_edges cfg). nodeId (conn_to e) = t \<and> port (conn_to e) = tp)) \<and>
     (snd (handlePortPointerUp cfg alloc st nid p dir) = [] \<or>
      snd (handlePortPointerUp cfg alloc st nid p dir) =
        [OnCompleteConnection
           \<lparr>oid = alloc, conn_from = \<lparr>nodeId = f, port = fp, portDef = None\<rparr>,
            conn_to = \<lparr>nodeId = t, port = tp, portDef = None\<rparr>\<rparr>]) \<and>
     (snd (handlePortPointerUp cfg alloc st nid p dir) = [] \<longrightarrow>
        runCallbacks rendered cur (snd (handlePortPointerUp cfg alloc st nid p dir)) = cur) \<and>
     (snd (handlePortPointerUp cfg alloc st nid p dir) \<noteq> [] \<longrightarrow>
        connections (present (runCallbacks rendered cur (snd (handlePortPointerUp cfg alloc st nid p dir)))) =
          connections rendered @
            [\<lparr>oid = alloc, conn_from = \<lparr>nodeId = f, port = fp, portDef = None\<rparr>,
              conn_to = \<lparr>nodeId = t, port = tp, portDef = None\<rparr>\<rparr>] \<and>
        nodes (present (runCallbacks rendered cur (snd (handlePortPointerUp cfg alloc st nid p dir)))) =
          nodes rendered)"
proof -
  note up = pointer_up_resolved [OF assms, of cfg alloc]
  show ?thesis
  proof (cases "validateConnection cfg alloc f fp t tp")
    case (Inl message)
    then have "snd (handlePortPointerUp cfg alloc st nid p dir) = []"
      by (simp add: up)
    moreover have "\<not> (\<exists>c. validateConnection cfg alloc f fp t tp = Inr c)"
      using Inl by simp
    ultimately show ?thesis
      unfolding validate_commit_iff by simp
  next
    case (Inr c)
    then have c: "c = \<lparr>oid = alloc, conn_from = \<lparr>nodeId = f, port = fp, portDef = None\<rparr>,
                       conn_to = \<lparr>nodeId = t, port = tp, portDef = None\<rparr>\<rparr>"
      by (rule validate_Inr)
    have s: "snd (handlePortPointerUp cfg alloc st nid p dir) = [OnCompleteConnection c]"
      using Inr by (simp add: up)
    have "\<exists>c. validateConnection cfg alloc f fp t tp = Inr c"
      using Inr by blast
    then show ?thesis
      unfolding validate_commit_iff s
      by (simp add: c handleCompleteConnection_def set_hist_def Let_def)
  qed
qed

text \<open>
  The claim as first stated asks only that both endpoints are resolved to node ids and
  port names. A node may have the empty string as its id. A drag from \<^verbatim>\<open>Add.Result\<close>
  released on the input \<^verbatim>\<open>A\<close> of such a node of type \<^verbatim>\<open>add\<close> resolves all four
  identifiers, the two ports resolve to the same type \<^verbatim>\<open>number\<close>, the node ids differ, no
  edge has these four fields and none ends at that input: yet the handler makes no call,
  and sets no warning.
\<close>

theorem connection_commit_counterexample:
  "newConnection (dragging (dragFromOutput ''Add'' (numberPort ''Result'')))
     = Some (dragFromOutput ''Add'' (numberPort ''Result'')) \<and>
   resolveEndpoints (dragFromOutput ''Add'' (numberPort ''Result'')) [] (numberPort ''A'') Input
     = (Some ''Add'', Some ''Result'', Some [], Some ''A'') \<and>
   fromPortDefOf scenario_config_empty_id ''Add'' ''Result'' = Some (numberPort ''Result'') \<and>
   toPortDefOf scenario_config_empty_id [] ''A'' = Some (numberPort ''A'') \<and>
   port_type (numberPort ''Result'') = port_type (numberPort ''A'') \<and>
   ''Add'' \<noteq> [] \<and>
   \<not> isDuplicate (cfg_edges scenario_config_empty_id) ''Add'' ''Result'' [] ''A'' \<and>
   \<not> inputAlreadyConnected (cfg_edges scenario_config_empty_id) [] ''A'' \<and>
   handlePortPointerUp scenario_config_empty_id 7
       (dragging (dragFromOutput ''Add'' (numberPort ''Result''))) [] (numberPort ''A'') Input
     = (\<lparr>newConnection = None, connectionPreview = None, warningMessage = None\<rparr>, [])"
  by (simp add: scen_defs drag_defs)

text \<open>
  Scenario A: a drag from \<^verbatim>\<open>Add.Result\<close> released on the input \<^verbatim>\<open>Subtract.A\<close>; the
  connections grow by that one entry.
\<close>

theorem connection_commit_iff_witness:
  "newConnection (dragging (dragFromOutput ''Add'' (numberPort ''Result'')))
     = Some (dragFromOutput ''Add'' (numberPort ''Result'')) \<and>
   resolveEndpoints (dragFromOutput ''Add'' (numberPort ''Result'')) ''Subtract'' (numberPort ''A'') Input
     = (Some ''Add'', Some ''Result'', Some ''Subtract'', Some ''A'') \<and>
   snd (handlePortPointerUp scenario_config 7 (dragging (dragFromOutput ''Add'' (numberPort ''Result'')))
          ''Subtract'' (numberPort ''A'') Input)
     = [OnCompleteConnection (wire 7 ''Add'' ''Result'' ''Subtract'' ''A'')] \<and>
   connections (present (runCallbacks scenario_state scenario_history
       (snd (handlePortPointerUp scenario_config 7 (dragging (dragFromOutput ''Add'' (numberPort ''Result'')))
          ''Subtract'' (numberPort ''A'') Input))))
     = [wire 0 ''Add'' ''Result'' ''Subtract'' ''B'', wire 7 ''Add'' ''Result'' ''Subtract'' ''A'']"
  using connection_commit_iff [of "dragging (dragFromOutput ''Add'' (numberPort ''Result''))"
      "dragFromOutput ''Add'' (numberPort ''Result'')" "''Subtract''" "numberPort ''A''" Input
      "''Add''" "''Result''" "''Subtract''" "''A''" scenario_config 7 scenario_state scenario_history]
  by (simp add: scen_defs drag_defs)

text \<open>
  Claim C2, as amended. A port pointer-up during a drag that does not commit. If an
  endpoint is missing, which for the handler is an identifier that is absent or is the
  empty string (it tests for truthiness), nothing is warned and nothing is called,
  whatever the later checks would say. Otherwise the warning set is the message of the first check
  that fails in the spec's order (\<open>spec_rejection\<close>: self-loop, unresolved node type,
  undeclared port, type mismatch, exact duplicate, input already connected), and nothing
  is called. With no call made the history, and so the connections, are as before. After
  every port pointer-up \<^verbatim>\<open>newConnection\<close> is clear, and so is the preview, in every state
  the gesture cells can reach.
\<close>

theorem pointer_up_rejection_order:
  "(newConnection st = Some nc \<and> resolveEndpoints nc nid p dir = (a, b, c, d) \<and>
      \<not> (truthy_str a \<and> truthy_str b \<and> truthy_str c \<and> truthy_str d) \<longrightarrow>
        handlePortPointerUp cfg alloc st nid p dir =
          (st\<lparr>newConnection := None, connectionPreview := None\<rparr>, [])) \<and>
   (newConnection st = Some nc \<and> resolveEndpoints nc nid p dir = (Some f, Some fp, Some t, Some tp) \<and>
      f \<noteq> [] \<and> fp \<noteq> [] \<and> t \<noteq> [] \<and> tp \<noteq> [] \<and> spec_rejection cfg f fp t tp = Some m \<longrightarrow>
        handlePortPointerUp cfg alloc st nid p dir =
          (st\<lparr>warningMessage := Some m, newConnection := None, connectionPreview := None\<rparr>, [])) \<and>
   (snd (handlePortPointerUp cfg alloc st nid p dir) = [] \<longrightarrow>
      runCallbacks rendered cur (snd (handlePortPointerUp cfg alloc st nid p dir)) = cur) \<and>
   newConnection (fst (handlePortPointerUp cfg alloc st nid p dir)) = None \<and>
   (newConnection st \<noteq> None \<or> reachable st \<longrightarrow>
      connectionPreview (fst (handlePortPointerUp cfg alloc st nid p dir)) = None)"
proof -
  have missing: "handlePortPointerUp cfg alloc st nid p dir =
      (st\<lparr>newConnection := None, connectionPreview := None\<rparr>, [])"
    if "newConnection st = Some nc" "resolveEndpoints nc nid p dir = (a, b, c, d)"
      "\<not> (truthy_str a \<and> truthy_str b \<and> truthy_str c \<and> truthy_str d)"
    using that by (rule pointer_up_missing)
  have rejected: "handlePortPointerUp cfg alloc st nid p dir =
      (st\<lparr>warningMessage := Some m, newConnection := None, connectionPreview := None\<rparr>, [])"
    if "newConnection st = Some nc" "resolveEndpoints nc nid p dir = (Some f, Some fp, Some t, Some tp)"
      "f \<noteq> []" "fp \<noteq> []" "t \<noteq> []" "tp \<noteq> []" "spec_rejection cfg f fp t tp = Some m"
    using that by (simp add: pointer_up_resolved validate_spec)
  have preview: "connectionPreview (fst (handlePortPointerUp cfg alloc st nid p dir)) = None"
    if "newConnection st \<noteq> None \<or> reachable st"
  proof (cases "newConnection st")
    case None
    then have "reachable st" using that by simp
    then have "connectionPreview st = None"
      using None reachable_cells_agree by blast
    then show ?thesis using None by (simp add: pointer_up_idle)
  next
    case (Some nc')
    then show ?thesis by (simp add: pointer_up_clears_preview)
  qed
  show ?thesis
    using missing rejected preview pointer_up_clears_newConnection [of cfg alloc st nid p dir]
    by simp
qed

text \<open>
  The claim as first stated lets only a missing endpoint abort in silence. A drag from the
  boolean output \<^verbatim>\<open>Gate.Out\<close> released on the number input \<^verbatim>\<open>A\<close> of a node whose id is
  the empty string has both endpoints, and the first check of the spec's order that fails
  is the type check, with its message: yet the handler sets no warning.
\<close>

theorem pointer_up_rejection_counterexample:
  "resolveEndpoints (dragFromOutput ''Gate'' (booleanPort ''Out'')) [] (numberPort ''A'') Input
     = (Some ''Gate'', Some ''Out'', Some [], Some ''A'') \<and>
   spec_rejection scenario_config_empty_id ''Gate'' ''Out'' [] ''A''
     = Some ''Cannot connect ports of different types: boolean and number'' \<and>
   handlePortPointerUp scenario_config_empty_id 7
       (dragging (dragFromOutput ''Gate'' (booleanPort ''Out''))) [] (numberPort ''A'') Input
     = (\<lparr>newConnection = None, connectionPreview = None, warningMessage = None\<rparr>, []) \<and>
   warningMessage (fst (handlePortPointerUp scenario_config_empty_id 7
       (dragging (dragFromOutput ''Gate'' (booleanPort ''Out''))) [] (numberPort ''A'') Input))
     \<noteq> spec_rejection scenario_config_empty_id ''Gate'' ''Out'' [] ''A''"
  by (simp add: scen_defs drag_defs spec_rejection_def spec_type_name_def same_fields_def)

text \<open>
  Scenario B: a drag from the number output \<^verbatim>\<open>Add.Result\<close> released on the boolean input
  \<^verbatim>\<open>Gate.Enable\<close>. The same drag released on an output port has no destination and aborts
  without a warning. Then one drag for each of the other five messages, and a pointer-up
  with no drag in progress, which changes nothing.
\<close>

theorem pointer_up_rejection_order_witness:
  "newConnection (dragging (dragFromOutput ''Add'' (numberPort ''Result'')))
     = Some (dragFromOutput ''Add'' (numberPort ''Result'')) \<and>
   resolveEndpoints (dragFromOutput ''Add'' (numberPort ''Result'')) ''Gate'' (booleanPort ''Enable'') Input
     = (Some ''Add'', Some ''Result'', Some ''Gate'', Some ''Enable'') \<and>
   spec_rejection scenario_config ''Add'' ''Result'' ''Gate'' ''Enable''
     = Some ''Cannot connect ports of different types: number and boolean'' \<and>
   handlePortPointerUp scenario_config 7 (dragging (dragFromOutput ''Add'' (numberPort ''Result'')))
       ''Gate'' (booleanPort ''Enable'') Input
     = (\<lparr>newConnection = None, connectionPreview = None,
         warningMessage = Some ''Cannot connect ports of different types: number and boolean''\<rparr>, []) \<and>
   resolveEndpoints (dragFromOutput ''Add'' (numberPort ''Result'')) ''Add2'' (numberPort ''Result'') Output
     = (Some ''Add2'', Some ''Result'', None, None) \<and>
   handlePortPointerUp scenario_config 7 (dragging (dragFromOutput ''Add'' (numberPort ''Result'')))
       ''Add2'' (numberPort ''Result'') Output
     = (\<lparr>newConnection = None, connectionPreview = None, warningMessage = None\<rparr>, []) \<and>
   runCallbacks scenario_state scenario_history
       (snd (handlePortPointerUp scenario_config 7 (dragging (dragFromOutput ''Add'' (numberPort ''Result'')))
          ''Gate'' (booleanPort ''Enable'') Input))
     = scenario_history \<and>
   warningMessage (fst (handlePortPointerUp scenario_config 7
       (dragging (dragFromOutput ''Add'' (numberPort ''Result''))) ''Add'' (numberPort ''A'') Input))
     = Some ''Cannot connect a node to itself'' \<and>
   warningMessage (fst (handlePortPointerUp scenario_config 7
       (dragging (dragFromOutput ''Add'' (numberPort ''Result''))) ''Ghost'' (numberPort ''A'') Input))
     = Some ''Invalid node types'' \<and>
   warningMessage (fst (handlePortPointerUp scenario_config 7
       (dragging (dragFromOutput ''Add'' (numberPort ''Result''))) ''Subtract'' (numberPort ''C'') Input))
     = Some ''Port not found in node definition'' \<and>
   warningMessage (fst (handlePortPointerUp scenario_config 7
       (dragging (dragFromOutput ''Add'' (numberPort ''Result''))) ''Subtract'' (numberPort ''B'') Input))
     = Some ''This connection already exists'' \<and>
   warningMessage (fst (handlePortPointerUp scenario_config 7
       (dragging (dragFromOutput ''Add2'' (numberPort ''Result''))) ''Subtract'' (numberPort ''B'') Input))
     = Some (''Input port '' @ [CHR 0x22] @ ''B'' @ [CHR 0x22] @ '' is already connected'') \<and>
   reachable gesture_initial \<and>
   handlePortPointerUp scenario_config 7 gesture_initial ''Gate'' (booleanPort ''Enable'') Input
     = (gesture_initial, [])"
  using pointer_up_rejection_order [of "dragging (dragFromOutput ''Add'' (numberPort ''Result''))"
      "dragFromOutput ''Add'' (numberPort ''Result'')" "''Gate''" "booleanPort ''Enable''" Input
      "Some ''Add''" "Some ''Result''" "Some ''Gate''" "Some ''Enable''"
      scenario_config 7 "''Add''" "''Result''" "''Gate''" "''Enable''"
      "''Cannot connect ports of different types: number and boolean''" scenario_state scenario_history]
    pointer_up_rejection_order [of "dragging (dragFromOutput ''Add'' (numberPort ''Result''))"
      "dragFromOutput ''Add'' (numberPort ''Result'')" "''Add2''" "numberPort ''Result''" Output
      "Some ''Add2''" "Some ''Result''" None None
      scenario_config 7 "''Add''" "''Result''" "''Gate''" "''Enable''"
      "''Cannot connect ports of different types: number and boolean''" scenario_state scenario_history]
    pointer_up_rejection_order [of gesture_initial
      "dragFromOutput ''Add'' (numberPort ''Result'')" "''Gate''" "booleanPort ''Enable''" Input
      "Some ''Add''" "Some ''Result''" "Some ''Gate''" "Some ''Enable''"
      scenario_config 7 "''Add''" "''Result''" "''Gate''" "''Enable''"
      "''Cannot connect ports of different types: number and boolean''" scenario_state scenario_history]
    reachable.initial
  by (simp add: scen_defs drag_defs spec_rejection_def spec_type_name_def same_fields_def gesture_initial_def)

section \<open>The arrow keys\<close>

text \<open>
  The calls an arrow key makes are right: one \<^verbatim>\<open>onNodeMove\<close> for each selected node, in
  order, to its position shifted by 10 (50 with shift) along the arrow's axis.
\<close>

lemma handleKeyDown_arrow:
  assumes "key e = ''ArrowUp'' \<or> key e = ''ArrowDown'' \<or> key e = ''ArrowLeft'' \<or> key e = ''ArrowRight''"
    and "\<not> ctrlKey e" and "\<not> metaKey e"
    and "filter (\<lambda>n. truthy_bool (node_selected n)) (kb_nodes cfg) \<noteq> []"
  shows "handleKeyDown cfg e =
     NodeMoves (map (\<lambda>node.
         (node_id node,
          node_x node + (if key e = ''ArrowLeft'' then - (if shiftKey e then 50 else 10)
                         else if key e = ''ArrowRight'' then (if shiftKey e then 50 else 10) else 0),
          node_y node + (if key e = ''ArrowUp'' then - (if shiftKey e then 50 else 10)
                         else if key e = ''ArrowDown'' then (if shiftKey e then 50 else 10) else 0)))
       (filter (\<lambda>n. truthy_bool (node_selected n)) (kb_nodes cfg)))"
  using assms by (auto simp: handleKeyDown_def Let_def)

text \<open>
  But of a batch of calls only the last one shows in the present: every call maps over
  the rendered nodes, not over the result of the call before.
\<close>

lemma present_runNodeMoves_last:
  "present (runNodeMoves rendered isDragging cur (moves @ [(i, x, y)])) =
     \<lparr>nodes = map (\<lambda>n. if node_id n = i then n\<lparr>node_x := x, node_y := y\<rparr> else n) (nodes rendered),
      connections = connections rendered\<rparr>"
  by (simp add: runNodeMoves_def handleNodeMove_def)

text \<open>
  Claim C6 does not hold of the code when two nodes are selected. \<^verbatim>\<open>Add\<close> at (0, 0) and
  \<^verbatim>\<open>Subtract\<close> at (300, 0) are selected and ArrowRight is pressed without modifiers. The
  handler calls \<^verbatim>\<open>onNodeMove\<close> for both, with the right targets; but each call of
  \<^verbatim>\<open>handleNodeMove\<close> maps over the \<^verbatim>\<open>nodes\<close> of the same render, so the second \<^verbatim>\<open>set\<close>
  replaces the snapshot of the first: \<^verbatim>\<open>Add\<close> is left at (0, 0), only \<^verbatim>\<open>Subtract\<close> has
  moved, and the snapshot in which only \<^verbatim>\<open>Add\<close> had moved is pushed on the past.
\<close>

theorem arrow_key_moves_only_last_selected:
  "handleKeyDown
     \<lparr>kb_nodes = nodes scenario_state, kb_blockMenuOpen = False,
      kb_mousePosition = \<lparr>pt_x = 0, pt_y = 0\<rparr>, kb_clipboard = [], kb_platformMounted = True\<rparr>
     \<lparr>ctrlKey = False, metaKey = False, shiftKey = False, key = ''ArrowRight''\<rparr>
     = NodeMoves [(''Add'', 10, 0), (''Subtract'', 310, 0)] \<and>
   nodes (present (runNodeMoves scenario_state False scenario_history
       [(''Add'', 10, 0), (''Subtract'', 310, 0)]))
     = [scenario_node ''Add'' ''add'' 0 0 True, scenario_node ''Subtract'' ''subtract'' 310 0 True,
        scenario_node ''Gate'' ''gate'' 300 200 False, scenario_node ''Add2'' ''add'' 0 200 False] \<and>
   map nodes (past (runNodeMoves scenario_state False scenario_history
       [(''Add'', 10, 0), (''Subtract'', 310, 0)]))
     = [nodes scenario_state,
        [scenario_node ''Add'' ''add'' 10 0 True, scenario_node ''Subtract'' ''subtract'' 300 0 True,
         scenario_node ''Gate'' ''gate'' 300 200 False, scenario_node ''Add2'' ''add'' 0 200 False]]"
  by (simp add: handleKeyDown_def runNodeMoves_def handleNodeMove_def set_hist_def
      maxHistory_default_def scen_defs Let_def)

end
